theory Spec2Isabelle
  imports Main
begin

section \<open>Python strings\<close>

text \<open>
  A Python \<open>str\<close> is modelled as a \<^typ>\<open>string\<close>, each character standing for the
  Unicode code point of its number: the texts of the model are those whose code points
  lie below 256. On these, \<open>isspace\<close> (what \<open>strip\<close> removes), \<open>isdigit\<close> and \<open>lower\<close>
  are Python's. \<open>upper\<close> is Python's but for the two letters whose capitals lie beyond
  the range, U+00B5 and U+00FF, which it leaves as they are: like their capitals they are
  neither \<open>C\<close>, \<open>Z\<close> nor digits, and one character long.
\<close>

definition isspace :: "char \<Rightarrow> bool" where
  "isspace c = (c \<in> set [CHR 0x09, CHR 0x0A, CHR 0x0B, CHR 0x0C, CHR 0x0D,
                           CHR 0x1C, CHR 0x1D, CHR 0x1E, CHR 0x1F, CHR '' '',
                           CHR 0x85, CHR 0xA0])"

definition lstrip :: "string \<Rightarrow> string" where
  "lstrip s = dropWhile isspace s"

definition rstrip :: "string \<Rightarrow> string" where
  "rstrip s = rev (dropWhile isspace (rev s))"

definition strip :: "string \<Rightarrow> string" where
  "strip s = rstrip (lstrip s)"

definition startswith :: "string \<Rightarrow> string \<Rightarrow> bool" where
  "startswith s p = (take (length p) s = p)"

definition endswith :: "string \<Rightarrow> string \<Rightarrow> bool" where
  "endswith s p = (length p \<le> length s \<and> drop (length s - length p) s = p)"

definition small_letters :: string where
  \<comment> \<open>\<open>a\<close> to \<open>z\<close>, then U+00E0 to U+00FE without the division sign U+00F7\<close>
  "small_letters = ''abcdefghijklmnopqrstuvwxyz'' @
     [CHR 0xE0, CHR 0xE1, CHR 0xE2, CHR 0xE3, CHR 0xE4, CHR 0xE5, CHR 0xE6, CHR 0xE7,
      CHR 0xE8, CHR 0xE9, CHR 0xEA, CHR 0xEB, CHR 0xEC, CHR 0xED, CHR 0xEE, CHR 0xEF,
      CHR 0xF0, CHR 0xF1, CHR 0xF2, CHR 0xF3, CHR 0xF4, CHR 0xF5, CHR 0xF6,
      CHR 0xF8, CHR 0xF9, CHR 0xFA, CHR 0xFB, CHR 0xFC, CHR 0xFD, CHR 0xFE]"

definition capital_letters :: string where
  \<comment> \<open>\<open>A\<close> to \<open>Z\<close>, then U+00C0 to U+00DE without the multiplication sign U+00D7\<close>
  "capital_letters = ''ABCDEFGHIJKLMNOPQRSTUVWXYZ'' @
     [CHR 0xC0, CHR 0xC1, CHR 0xC2, CHR 0xC3, CHR 0xC4, CHR 0xC5, CHR 0xC6, CHR 0xC7,
      CHR 0xC8, CHR 0xC9, CHR 0xCA, CHR 0xCB, CHR 0xCC, CHR 0xCD, CHR 0xCE, CHR 0xCF,
      CHR 0xD0, CHR 0xD1, CHR 0xD2, CHR 0xD3, CHR 0xD4, CHR 0xD5, CHR 0xD6,
      CHR 0xD8, CHR 0xD9, CHR 0xDA, CHR 0xDB, CHR 0xDC, CHR 0xDD, CHR 0xDE]"

definition upper_char :: "char \<Rightarrow> string" where
  \<comment> \<open>the capital of U+00DF is \<open>SS\<close>\<close>
  "upper_char c =
     (if c = CHR 0xDF then ''SS''
      else case map_of (zip small_letters capital_letters) c of
             Some u \<Rightarrow> [u] | None \<Rightarrow> [c])"

definition lower_char :: "char \<Rightarrow> char" where
  "lower_char c =
     (case map_of (zip capital_letters small_letters) c of Some l \<Rightarrow> l | None \<Rightarrow> c)"

definition upper :: "string \<Rightarrow> string" where
  "upper s = concat (map upper_char s)"

definition lower :: "string \<Rightarrow> string" where
  "lower s = map lower_char s"

definition remove_spaces :: "string \<Rightarrow> string" where
  \<comment> \<open>\<open>s.replace(" ", "")\<close>\<close>
  "remove_spaces s = filter (\<lambda>c. c \<noteq> CHR '' '') s"

definition isdigit :: "string \<Rightarrow> bool" where
  \<comment> \<open>\<open>"".isdigit()\<close> is false; the superscripts U+00B2, U+00B3 and U+00B9 are digits\<close>
  "isdigit s =
     (s \<noteq> [] \<and> list_all (\<lambda>c. c \<in> set (''0123456789'' @ [CHR 0xB2, CHR 0xB3, CHR 0xB9])) s)"

section \<open>JSON values\<close>

text \<open>
  What \<open>json.loads\<close> returns. An object is a Python \<open>dict\<close>: an association list in
  insertion order. A float is \<open>Finite m e\<close> for \<open>m * 2 ^ e\<close>, or one of the special values
  \<open>json.loads\<close> accepts.
\<close>

datatype pyfloat = Finite int int | Nan | Inf bool

datatype json =
    JNull | JBool bool | JInt int | JFloat pyfloat | JString string
  | JArray "json list" | JObject "(string \<times> json) list"

section \<open>Exceptions, printed lines and the world\<close>

text \<open>
  \<open>exn\<close> stands for the instances of Python's \<open>Exception\<close>: what \<open>except Exception\<close>
  catches. Each constructor of \<open>line\<close> is one \<open>print\<close> statement of the source with the
  values its f-string interpolates.
\<close>

datatype exn =
    JSONDecodeError | ParseError | TypeError | AttributeError | IndexError | KeyError
  | FileNotFoundError | OSError | FileDataError | ConnectionError | Timeout | APIError

datatype line =
    Error_parsing_XML exn
  | Error_processing_XML exn
  | Could_not_find_status
  | Returned_status_code string
  | Returned_error_status_code string
  | Not_found_in_registry string
  | Not_found_in_returned_records string
  | Payer_is_unreliable string
  | Payer_is_reliable string
  | Unknown_VAT_status string string
  | VAT_service_error_HTTP int
  | Error_checking_VAT exn
  | Processing string
  | Checking_VAT_reliability_for json
  | VAT_check_result string
  | VAT_could_not_be_determined
  | No_VAT_number_found_for_check
  | Error_parsing_JSON exn
  | Response_text string
  | Error_processing_invoice exn
  | Error_enhancing_image string exn
  | Results_saved_to string
  | No_supported_files
  | Supported_formats
  | Found_files nat
  | File_item string
  | Successfully_processed string
  | Failed_to_process string
  | Separator

record request =
  url :: string
  data :: string
  headers :: "(string \<times> string) list"
  timeout :: nat

datatype content = Bytes string | Dumped json

record world =
  fs :: "string \<Rightarrow> content option"
  stdout :: "line list"
  sent :: "request list"

type_synonym 'a py = "world \<Rightarrow> (exn + 'a) \<times> world"

definition ret :: "'a \<Rightarrow> 'a py" where
  "ret x w = (Inr x, w)"

definition raise :: "exn \<Rightarrow> 'a py" where
  "raise e w = (Inl e, w)"

definition bind :: "'a py \<Rightarrow> ('a \<Rightarrow> 'b py) \<Rightarrow> 'b py" where
  "bind m f w = (case m w of (Inl e, w') \<Rightarrow> (Inl e, w') | (Inr x, w') \<Rightarrow> f x w')"

definition try_except :: "'a py \<Rightarrow> (exn \<Rightarrow> 'a py) \<Rightarrow> 'a py" where
  \<comment> \<open>\<open>try: m  except Exception as e: h e\<close>\<close>
  "try_except m h w = (case m w of (Inl e, w') \<Rightarrow> h e w' | (Inr x, w') \<Rightarrow> (Inr x, w'))"

definition print :: "line \<Rightarrow> unit py" where
  "print l w = (Inr (), w\<lparr>stdout := stdout w @ [l]\<rparr>)"

definition say :: "line \<Rightarrow> world \<Rightarrow> world" where
  \<comment> \<open>the world after one more printed line\<close>
  "say l w = w\<lparr>stdout := stdout w @ [l]\<rparr>"

section \<open>Element trees\<close>

text \<open>
  What \<open>ET.fromstring\<close> returns: elements with a qualified tag \<open>{namespace}local\<close>,
  attributes, an optional text and children. \<open>find\<close> and \<open>findall\<close> with the path
  \<open>.//ns:local\<close> range over the proper descendants in document order.
\<close>

datatype xml = Element (tag: string) (attrib: "(string \<times> string) list")
                       (etext: "string option") (children: "xml list")

fun iter :: "xml \<Rightarrow> xml list" where
  "iter (Element t a x cs) = Element t a x cs # concat (map iter cs)"

definition descendants :: "xml \<Rightarrow> xml list" where
  "descendants e = concat (map iter (children e))"

definition ns :: "string \<Rightarrow> string" where
  "ns local = ''{http://adis.mfcr.cz/rozhraniCRPDPH/}'' @ local"

definition findall :: "xml \<Rightarrow> string \<Rightarrow> xml list" where
  "findall e local = filter (\<lambda>d. tag d = ns local) (descendants e)"

definition find_elem :: "xml \<Rightarrow> string \<Rightarrow> xml option" where
  "find_elem e local = (case findall e local of [] \<Rightarrow> None | d # _ \<Rightarrow> Some d)"

definition get :: "xml \<Rightarrow> string \<Rightarrow> string \<Rightarrow> string" where
  \<comment> \<open>\<open>elem.get(key, default)\<close>\<close>
  "get e k dflt = (case map_of (attrib e) k of None \<Rightarrow> dflt | Some v \<Rightarrow> v)"

section \<open>Reading the registry's answer\<close>

text \<open>
  \<open>parse_vat_response\<close> of \<open>invoice_extractor.py\<close>. Its first argument is what
  \<open>ET.fromstring(xml_response)\<close> does: the root element, or the exception raised.
  The loop returns \<open>Some b\<close> when a \<open>return b\<close> fired and \<open>None\<close> when it ran out.
\<close>

fun scan_records :: "xml list \<Rightarrow> string \<Rightarrow> bool option py" where
  "scan_records [] vat_number = ret None"
| "scan_records (platce # rest) vat_number =
     (case find_elem platce ''dic'' of
        None \<Rightarrow> scan_records rest vat_number
      | Some dic \<Rightarrow>
          if etext dic = Some vat_number then
            (case find_elem platce ''nespolehlivy'' of
               None \<Rightarrow> scan_records rest vat_number
             | Some nespolehlivy \<Rightarrow>
                 (case etext nespolehlivy of
                    None \<Rightarrow> raise AttributeError
                  | Some t \<Rightarrow> ret (Some (\<not> (lower t = ''true'')))))
          else scan_records rest vat_number)"

definition parse_vat_body :: "exn + xml \<Rightarrow> string \<Rightarrow> bool option py" where
  "parse_vat_body xml_response vat_number =
     (case xml_response of
        Inl e \<Rightarrow> raise e
      | Inr root \<Rightarrow>
          (case find_elem root ''status'' of
             None \<Rightarrow> bind (print Could_not_find_status) (\<lambda>_. ret None)
           | Some status_elem \<Rightarrow>
               (let status_code = get status_elem ''statusCode'' '''' in
                if status_code = ''0'' then
                  bind (scan_records (findall root ''StatusNespolehlivyPlatce'') vat_number)
                    (\<lambda>r. case r of Some b \<Rightarrow> ret (Some b) | None \<Rightarrow> ret (Some True))
                else bind (print (Returned_status_code status_code)) (\<lambda>_. ret None))))"

definition xml_handler :: "exn \<Rightarrow> bool option py" where
  \<comment> \<open>\<open>except ET.ParseError\<close>, then \<open>except Exception\<close>\<close>
  "xml_handler e =
     (if e = ParseError then bind (print (Error_parsing_XML e)) (\<lambda>_. ret None)
      else bind (print (Error_processing_XML e)) (\<lambda>_. ret None))"

definition parse_vat_response :: "exn + xml \<Rightarrow> string \<Rightarrow> bool option py" where
  "parse_vat_response xml_response vat_number =
     try_except (parse_vat_body xml_response vat_number) xml_handler"

text \<open>\<open>parse_vat_response\<close> of \<open>invoice_extractor_groq.py\<close>.\<close>

fun scan_records_groq :: "xml list \<Rightarrow> string \<Rightarrow> bool option py" where
  "scan_records_groq [] vat_number = ret None"
| "scan_records_groq (platce # rest) vat_number =
     (let dic_value = get platce ''dic'' '''';
          nespolehlivy_value = get platce ''nespolehlivyPlatce'' ''''
      in if dic_value = vat_number then
           if nespolehlivy_value = ''NENALEZEN'' then
             bind (print (Not_found_in_registry vat_number)) (\<lambda>_. ret (Some False))
           else if nespolehlivy_value = ''ANO'' then
             bind (print (Payer_is_unreliable vat_number)) (\<lambda>_. ret (Some False))
           else if nespolehlivy_value = ''NE'' \<or> nespolehlivy_value = '''' then
             bind (print (Payer_is_reliable vat_number)) (\<lambda>_. ret (Some True))
           else
             bind (print (Unknown_VAT_status nespolehlivy_value vat_number))
               (\<lambda>_. ret (Some True))
         else scan_records_groq rest vat_number)"

definition parse_vat_body_groq :: "exn + xml \<Rightarrow> string \<Rightarrow> bool option py" where
  "parse_vat_body_groq xml_response vat_number =
     (case xml_response of
        Inl e \<Rightarrow> raise e
      | Inr root \<Rightarrow>
          (case find_elem root ''status'' of
             None \<Rightarrow> bind (print Could_not_find_status) (\<lambda>_. ret None)
           | Some status_elem \<Rightarrow>
               (let status_code = get status_elem ''statusCode'' '''' in
                if status_code = ''0'' then
                  (let platce_elements = findall root ''statusPlatceDPH'' in
                   if platce_elements = [] then
                     bind (print (Not_found_in_registry vat_number)) (\<lambda>_. ret (Some False))
                   else
                     bind (scan_records_groq platce_elements vat_number)
                       (\<lambda>r. case r of
                          Some b \<Rightarrow> ret (Some b)
                        | None \<Rightarrow>
                            bind (print (Not_found_in_returned_records vat_number))
                              (\<lambda>_. ret (Some False))))
                else bind (print (Returned_error_status_code status_code)) (\<lambda>_. ret None))))"

definition parse_vat_response_groq :: "exn + xml \<Rightarrow> string \<Rightarrow> bool option py" where
  "parse_vat_response_groq xml_response vat_number =
     try_except (parse_vat_body_groq xml_response vat_number) xml_handler"

section \<open>The environment\<close>

text \<open>
  The libraries and services the program calls are parameters of the model: each takes
  the call's arguments to its result or to the exception it raises.
  \<^item> \<open>requests_post\<close>: \<open>requests.post\<close>; the response's \<open>body\<close> is what
    \<open>ET.fromstring(response.text)\<close> does.
  \<^item> \<open>json_loads\<close>, \<open>json_dumps\<close>, \<open>b64encode\<close>: the library functions.
  \<^item> \<open>vision_api\<close>: media type and encoded image to the text of the first content
    block of the backend's answer.
  \<^item> \<open>fitz_render\<close>: \<open>fitz.open\<close>, \<open>doc[0]\<close>, \<open>get_pixmap\<close> at the given scale and
    \<open>tobytes("png")\<close>; \<open>doc.close()\<close> is taken not to fail.
  \<^item> \<open>pil_enhance\<close>: \<open>Image.open\<close> on the bytes and \<open>enhance_image_for_ocr\<close>, to the
    bytes that \<open>save\<close> writes.
  \<^item> \<open>fault\<close>: whether a file operation on a path fails, and with which exception.
  \<^item> \<open>glob\<close>: \<open>folder.glob(pattern)\<close>.
\<close>

record response =
  status_code :: int
  body :: "exn + xml"

datatype io_op = Open_write | Write | Read | Remove

record env =
  requests_post :: "request \<Rightarrow> exn + response"
  json_loads :: "string \<Rightarrow> exn + json"
  json_dumps :: "json \<Rightarrow> string"
  b64encode :: "string \<Rightarrow> string"
  vision_api :: "string \<Rightarrow> string \<Rightarrow> exn + string"
  fitz_render :: "string \<Rightarrow> nat \<Rightarrow> exn + string"
  pil_enhance :: "string \<Rightarrow> exn + string"
  fault :: "io_op \<Rightarrow> string \<Rightarrow> exn option"
  glob :: "string \<Rightarrow> string list"

definition lift :: "exn + 'a \<Rightarrow> 'a py" where
  "lift r w = (r, w)"

definition post :: "env \<Rightarrow> request \<Rightarrow> response py" where
  \<comment> \<open>the request is issued, whatever comes back\<close>
  "post env rq w = (requests_post env rq, w\<lparr>sent := sent w @ [rq]\<rparr>)"

section \<open>Files\<close>

definition bytes_of :: "env \<Rightarrow> content \<Rightarrow> string" where
  "bytes_of env c = (case c of Bytes b \<Rightarrow> b | Dumped j \<Rightarrow> json_dumps env j)"

definition write_file :: "env \<Rightarrow> string \<Rightarrow> content \<Rightarrow> unit py" where
  \<comment> \<open>\<open>with open(p, "w") as f: write\<close>: \<open>open\<close> creates or empties the file\<close>
  "write_file env p c w =
     (case fault env Open_write p of
        Some e \<Rightarrow> (Inl e, w)
      | None \<Rightarrow>
          (case fault env Write p of
             Some e \<Rightarrow> (Inl e, w\<lparr>fs := (fs w)(p \<mapsto> Bytes [])\<rparr>)
           | None \<Rightarrow> (Inr (), w\<lparr>fs := (fs w)(p \<mapsto> c)\<rparr>)))"

definition pil_save :: "env \<Rightarrow> string \<Rightarrow> string \<Rightarrow> unit py" where
  \<comment> \<open>\<open>img.save(p)\<close>: opens the file for writing, then writes the encoded image\<close>
  "pil_save env p b = write_file env p (Bytes b)"

definition read_file :: "env \<Rightarrow> string \<Rightarrow> string py" where
  \<comment> \<open>\<open>with open(p, "rb") as f: f.read()\<close>\<close>
  "read_file env p w =
     (case fs w p of
        None \<Rightarrow> (Inl FileNotFoundError, w)
      | Some c \<Rightarrow>
          (case fault env Read p of
             Some e \<Rightarrow> (Inl e, w)
           | None \<Rightarrow> (Inr (bytes_of env c), w)))"

definition os_remove :: "env \<Rightarrow> string \<Rightarrow> unit py" where
  "os_remove env p w =
     (case fs w p of
        None \<Rightarrow> (Inl FileNotFoundError, w)
      | Some c \<Rightarrow>
          (case fault env Remove p of
             Some e \<Rightarrow> (Inl e, w)
           | None \<Rightarrow> (Inr (), w\<lparr>fs := (fs w)(p := None)\<rparr>)))"

fun split_slash :: "string \<Rightarrow> string list" where
  \<comment> \<open>\<open>p.split("/")\<close>\<close>
  "split_slash [] = [[]]"
| "split_slash (c # cs) =
     (if c = CHR ''/'' then [] # split_slash cs
      else case split_slash cs of
             x # xs \<Rightarrow> (c # x) # xs
           | [] \<Rightarrow> [[c]])"

definition name :: "string \<Rightarrow> string" where
  \<comment> \<open>\<open>Path(p).name\<close>: the last component, empty and \<open>.\<close> components dropped\<close>
  "name p =
     (case rev (filter (\<lambda>x. x \<noteq> [] \<and> x \<noteq> ''.'') (split_slash p)) of
        [] \<Rightarrow> []
      | x # _ \<Rightarrow> x)"

definition rfind_dot :: "string \<Rightarrow> nat option" where
  \<comment> \<open>\<open>s.rfind(".")\<close>, \<open>None\<close> for -1\<close>
  "rfind_dot s =
     (if CHR ''.'' \<in> set s
      then Some (length s - 1 - length (takeWhile (\<lambda>c. c \<noteq> CHR ''.'') (rev s)))
      else None)"

definition suffix :: "string \<Rightarrow> string" where
  \<comment> \<open>\<open>Path(p).suffix\<close>\<close>
  "suffix p =
     (let n = name p in
      case rfind_dot n of
        None \<Rightarrow> []
      | Some i \<Rightarrow> if 0 < i \<and> i < length n - 1 then drop i n else [])"

definition stem :: "string \<Rightarrow> string" where
  \<comment> \<open>\<open>Path(p).stem\<close>\<close>
  "stem p =
     (let n = name p in
      case rfind_dot n of
        None \<Rightarrow> n
      | Some i \<Rightarrow> if 0 < i \<and> i < length n - 1 then take i n else n)"

section \<open>Normalising a document\<close>

datatype variant = Anthropic | Groq

definition encode_image :: "env \<Rightarrow> string \<Rightarrow> string py" where
  "encode_image env image_path =
     bind (read_file env image_path) (\<lambda>b. ret (b64encode env b))"

definition pdf_to_image :: "variant \<Rightarrow> env \<Rightarrow> string \<Rightarrow> string py" where
  "pdf_to_image var env pdf_path =
     (case var of
        Anthropic \<Rightarrow>
          bind (lift (fitz_render env pdf_path 2)) (\<lambda>img_data.
          bind (write_file env ''temp_invoice.png'' (Bytes img_data)) (\<lambda>_.
          bind (encode_image env ''temp_invoice.png'') (\<lambda>encoded_image.
          bind (os_remove env ''temp_invoice.png'') (\<lambda>_.
          ret encoded_image))))
      | Groq \<Rightarrow>
          bind (lift (fitz_render env pdf_path 3)) (\<lambda>img_data.
          bind (lift (pil_enhance env img_data)) (\<lambda>img.
          bind (pil_save env ''temp_invoice_enhanced.png'' img) (\<lambda>_.
          bind (encode_image env ''temp_invoice_enhanced.png'') (\<lambda>encoded_image.
          bind (os_remove env ''temp_invoice_enhanced.png'') (\<lambda>_.
          ret encoded_image))))))"

definition enhance_existing_image :: "env \<Rightarrow> string \<Rightarrow> string py" where
  "enhance_existing_image env image_path =
     try_except
       (bind (read_file env image_path) (\<lambda>b.
        bind (lift (pil_enhance env b)) (\<lambda>enhanced_img.
        let temp_path = ''temp_enhanced_'' @ name image_path in
        bind (pil_save env temp_path enhanced_img) (\<lambda>_.
        ret temp_path))))
       (\<lambda>e. bind (print (Error_enhancing_image image_path e)) (\<lambda>_. ret image_path))"

definition media_type_of :: "string \<Rightarrow> string" where
  "media_type_of file_extension =
     (if file_extension \<in> set [''.jpg'', ''.jpeg''] then ''image/jpeg''
      else if file_extension = ''.png'' then ''image/png''
      else if file_extension = ''.gif'' then ''image/gif''
      else if file_extension = ''.webp'' then ''image/webp''
      else ''image/png'')"

definition normalise :: "variant \<Rightarrow> env \<Rightarrow> string \<Rightarrow> (string \<times> string) py" where
  \<comment> \<open>the part of \<open>process_invoice\<close> before its \<open>try\<close>: encoded image and media type\<close>
  "normalise var env file_path =
     (let file_extension = lower (suffix file_path) in
      if file_extension = ''.pdf'' then
        bind (pdf_to_image var env file_path) (\<lambda>encoded_image.
        ret (encoded_image, ''image/png''))
      else
        (case var of
           Anthropic \<Rightarrow>
             bind (encode_image env file_path) (\<lambda>encoded_image.
             ret (encoded_image, media_type_of file_extension))
         | Groq \<Rightarrow>
             bind (enhance_existing_image env file_path) (\<lambda>enhanced_image_path.
             bind (encode_image env enhanced_image_path) (\<lambda>encoded_image.
             bind (if enhanced_image_path \<noteq> file_path
                   then os_remove env enhanced_image_path else ret ()) (\<lambda>_.
             ret (encoded_image, media_type_of file_extension))))))"

section \<open>The reliability check\<close>

definition truthy :: "json \<Rightarrow> bool" where
  \<comment> \<open>Python's truth value of a parsed JSON value\<close>
  "truthy v =
     (case v of
        JNull \<Rightarrow> False
      | JBool b \<Rightarrow> b
      | JInt n \<Rightarrow> n \<noteq> 0
      | JFloat f \<Rightarrow> (case f of Finite m e \<Rightarrow> m \<noteq> 0 | Nan \<Rightarrow> True | Inf s \<Rightarrow> True)
      | JString s \<Rightarrow> s \<noteq> []
      | JArray xs \<Rightarrow> xs \<noteq> []
      | JObject d \<Rightarrow> d \<noteq> [])"

definition isinstance_str :: "json \<Rightarrow> bool" where
  "isinstance_str v = (case v of JString s \<Rightarrow> True | _ \<Rightarrow> False)"

definition soap_body :: "string \<Rightarrow> string" where
  \<open>soap_body vat_numeric =
     ''<?xml version="1.0" encoding="utf-8"?>\<newline>'' @
     ''<soapenv:Envelope xmlns:soapenv="http://schemas.xmlsoap.org/soap/envelope/">\<newline>'' @
     ''    <soapenv:Body>\<newline>'' @
     ''        <StatusNespolehlivyPlatceRequest xmlns="http://adis.mfcr.cz/rozhraniCRPDPH/">\<newline>'' @
     ''            <dic>'' @ vat_numeric @ ''</dic>\<newline>'' @
     ''        </StatusNespolehlivyPlatceRequest>\<newline>'' @
     ''    </soapenv:Body>\<newline>'' @
     ''</soapenv:Envelope>''\<close>

definition soap_request :: "string \<Rightarrow> request" where
  "soap_request vat_numeric =
     \<lparr>url = ''https://adisrws.mfcr.cz/adistc/axis2/services/rozhraniCRPDPH.rozhraniCRPDPHSOAP'',
      data = soap_body vat_numeric,
      headers = [(''Content-Type'', ''text/xml; charset=utf-8''),
                 (''SOAPAction'',
                  ''http://adis.mfcr.cz/rozhraniCRPDPH/getStatusNespolehlivyPlatce'')],
      timeout = 10\<rparr>"

definition parse_vat_response_of :: "variant \<Rightarrow> exn + xml \<Rightarrow> string \<Rightarrow> bool option py" where
  "parse_vat_response_of var =
     (case var of Anthropic \<Rightarrow> parse_vat_response | Groq \<Rightarrow> parse_vat_response_groq)"

definition check_vat_reliability :: "variant \<Rightarrow> env \<Rightarrow> json \<Rightarrow> bool option py" where
  "check_vat_reliability var env vat_number =
     (if \<not> truthy vat_number \<or> \<not> isinstance_str vat_number then ret None
      else
        (case vat_number of
           JString s \<Rightarrow>
             (let vat_clean = upper (remove_spaces s) in
              if \<not> startswith vat_clean ''CZ'' then ret None
              else
                (let vat_numeric = drop 2 vat_clean in
                 if \<not> isdigit vat_numeric \<or> length vat_numeric < 8 \<or> length vat_numeric > 10
                 then ret None
                 else
                   try_except
                     (bind (post env (soap_request vat_numeric)) (\<lambda>response.
                        if status_code response = 200 then
                          parse_vat_response_of var (body response) vat_numeric
                        else
                          bind (print (VAT_service_error_HTTP (status_code response)))
                            (\<lambda>_. ret None)))
                     (\<lambda>e. bind (print (Error_checking_VAT e)) (\<lambda>_. ret None))))
         | _ \<Rightarrow> ret None))"

section \<open>Reading the backend's answer\<close>

fun contains_str :: "string \<Rightarrow> string \<Rightarrow> bool" where
  \<comment> \<open>\<open>sub in s\<close> on strings\<close>
  "contains_str [] sub = (sub = [])"
| "contains_str (c # cs) sub = (startswith (c # cs) sub \<or> contains_str cs sub)"

fun dict_set :: "(string \<times> json) list \<Rightarrow> string \<Rightarrow> json \<Rightarrow> (string \<times> json) list" where
  \<comment> \<open>\<open>d[k] = v\<close>: a present key keeps its place, a new key goes last\<close>
  "dict_set [] k v = [(k, v)]"
| "dict_set ((k', v') # d) k v =
     (if k' = k then (k, v) # d else (k', v') # dict_set d k v)"

definition py_contains :: "json \<Rightarrow> string \<Rightarrow> bool py" where
  \<comment> \<open>\<open>key in obj\<close>\<close>
  "py_contains obj key =
     (case obj of
        JObject d \<Rightarrow> ret (map_of d key \<noteq> None)
      | JArray xs \<Rightarrow> ret (JString key \<in> set xs)
      | JString s \<Rightarrow> ret (contains_str s key)
      | _ \<Rightarrow> raise TypeError)"

definition py_getitem :: "json \<Rightarrow> string \<Rightarrow> json py" where
  \<comment> \<open>\<open>obj[key]\<close> for a string key\<close>
  "py_getitem obj key =
     (case obj of
        JObject d \<Rightarrow> (case map_of d key of None \<Rightarrow> raise KeyError | Some v \<Rightarrow> ret v)
      | _ \<Rightarrow> raise TypeError)"

definition py_setitem :: "json \<Rightarrow> string \<Rightarrow> json \<Rightarrow> json py" where
  \<comment> \<open>\<open>obj[key] = v\<close> for a string key; the object as it is afterwards\<close>
  "py_setitem obj key v =
     (case obj of
        JObject d \<Rightarrow> ret (JObject (dict_set d key v))
      | _ \<Rightarrow> raise TypeError)"

definition clean_response :: "string \<Rightarrow> string" where
  "clean_response text0 =
     (let response_text = strip text0;
          response_text = (if startswith response_text ''```json''
                           then drop 7 response_text else response_text);
          response_text = (if endswith response_text ''```''
                           then take (length response_text - 3) response_text
                           else response_text)
      in strip response_text)"

definition attach_reliability :: "variant \<Rightarrow> env \<Rightarrow> json \<Rightarrow> json py" where
  "attach_reliability var env extracted_data =
     bind (py_contains extracted_data ''vat_number'') (\<lambda>present.
     bind (if present
           then bind (py_getitem extracted_data ''vat_number'') (\<lambda>v. ret (truthy v))
           else ret False) (\<lambda>has_vat.
     if has_vat then
       bind (py_getitem extracted_data ''vat_number'') (\<lambda>v.
       bind (print (Checking_VAT_reliability_for v)) (\<lambda>_.
       bind (py_getitem extracted_data ''vat_number'') (\<lambda>v.
       bind (check_vat_reliability var env v) (\<lambda>vat_reliability.
       case vat_reliability of
         Some b \<Rightarrow>
           bind (py_setitem extracted_data ''reliable_VAT_payer'' (JBool b)) (\<lambda>d.
           bind (print (VAT_check_result (if b then ''Reliable'' else ''Unreliable''))) (\<lambda>_.
           ret d))
       | None \<Rightarrow>
           bind (py_setitem extracted_data ''reliable_VAT_payer''
                   (JString ''Unable to verify'')) (\<lambda>d.
           bind (print VAT_could_not_be_determined) (\<lambda>_.
           ret d))))))
     else
       bind (py_setitem extracted_data ''reliable_VAT_payer''
               (JString ''No VAT number found'')) (\<lambda>d.
       bind (print No_VAT_number_found_for_check) (\<lambda>_.
       ret d))))"

definition try_except_JSONDecodeError :: "'a py \<Rightarrow> (exn \<Rightarrow> 'a py) \<Rightarrow> 'a py" where
  \<comment> \<open>\<open>try: m  except json.JSONDecodeError as e: h e\<close>\<close>
  "try_except_JSONDecodeError m h w =
     (case m w of
        (Inl e, w') \<Rightarrow> if e = JSONDecodeError then h e w' else (Inl e, w')
      | (Inr x, w') \<Rightarrow> (Inr x, w'))"

definition read_response :: "variant \<Rightarrow> env \<Rightarrow> string \<Rightarrow> json option py" where
  \<comment> \<open>from the text of the backend's answer to the record, or \<open>None\<close>\<close>
  "read_response var env text0 =
     (let response_text = clean_response text0 in
      try_except_JSONDecodeError
        (bind (lift (json_loads env response_text)) (\<lambda>extracted_data.
         bind (attach_reliability var env extracted_data) (\<lambda>d.
         ret (Some d))))
        (\<lambda>e. bind (print (Error_parsing_JSON e)) (\<lambda>_.
             bind (print (Response_text response_text)) (\<lambda>_.
             ret None))))"

definition extract_record :: "variant \<Rightarrow> env \<Rightarrow> string \<Rightarrow> string \<Rightarrow> json option py" where
  \<comment> \<open>the \<open>try\<close> statement of \<open>process_invoice\<close>\<close>
  "extract_record var env media_type encoded_image =
     try_except
       (bind (lift (vision_api env media_type encoded_image)) (\<lambda>text0.
        read_response var env text0))
       (\<lambda>e. bind (print (Error_processing_invoice e)) (\<lambda>_. ret None))"

section \<open>One invoice, all invoices\<close>

definition process_invoice :: "variant \<Rightarrow> env \<Rightarrow> string \<Rightarrow> json option py" where
  "process_invoice var env file_path =
     bind (print (Processing file_path)) (\<lambda>_.
     bind (normalise var env file_path) (\<lambda>(encoded_image, media_type).
     extract_record var env media_type encoded_image))"

definition save_results :: "env \<Rightarrow> json \<Rightarrow> string \<Rightarrow> unit py" where
  "save_results env extracted original_filename =
     (let output_filename = stem original_filename @ ''_extracted.json'' in
      bind (write_file env output_filename (Dumped extracted)) (\<lambda>_.
      print (Results_saved_to output_filename)))"

definition get_supported_files :: "env \<Rightarrow> string list" where
  "get_supported_files env =
     concat (map (\<lambda>ext. glob env (''*'' @ ext) @ glob env (''*'' @ upper ext))
               [''.pdf'', ''.png'', ''.jpg'', ''.jpeg'', ''.gif'', ''.webp''])"

fun process_files :: "variant \<Rightarrow> env \<Rightarrow> string list \<Rightarrow> unit py" where
  \<comment> \<open>the loop \<open>for file_path in files\<close> of \<open>process_all_invoices\<close>\<close>
  "process_files var env [] = ret ()"
| "process_files var env (file_path # rest) =
     bind (process_invoice var env file_path) (\<lambda>extracted_data.
     bind (case extracted_data of
             None \<Rightarrow> print (Failed_to_process (name file_path))
           | Some d \<Rightarrow>
               if truthy d then
                 bind (save_results env d (name file_path)) (\<lambda>_.
                 print (Successfully_processed (name file_path)))
               else print (Failed_to_process (name file_path))) (\<lambda>_.
     bind (print Separator) (\<lambda>_.
     process_files var env rest)))"

fun print_items :: "string list \<Rightarrow> unit py" where
  "print_items [] = ret ()"
| "print_items (file # rest) = bind (print (File_item file)) (\<lambda>_. print_items rest)"

definition process_all_invoices :: "variant \<Rightarrow> env \<Rightarrow> unit py" where
  "process_all_invoices var env =
     (let files = get_supported_files env in
      if files = [] then
        bind (print No_supported_files) (\<lambda>_. print Supported_formats)
      else
        bind (print (Found_files (length files))) (\<lambda>_.
        bind (print_items files) (\<lambda>_.
        process_files var env files)))"

definition invoice_keys :: "string list" where
  \<comment> \<open>the keys of the JSON structure that the system prompt asks for\<close>
  "invoice_keys =
     [''supplier_name'', ''vat_number'', ''invoice_number'', ''date_of_sale'', ''due_date'',
      ''duzp'', ''amount_without_VAT_21'', ''VAT_21'', ''amount_without_VAT_12'', ''VAT_12'',
      ''total_amount_with_VAT'', ''reliable_VAT_payer'']"


definition temp_image_path :: "variant \<Rightarrow> string" where
  \<comment> \<open>the fixed name \<open>pdf_to_image\<close> gives its temporary file\<close>
  "temp_image_path var =
     (case var of Anthropic \<Rightarrow> ''temp_invoice.png'' | Groq \<Rightarrow> ''temp_invoice_enhanced.png'')"

section \<open>Sample data\<close>

text \<open>
  A registry answer as the service sends it: a SOAP envelope whose body holds the
  response element with a \<open>status\<close> element and the payer records.
\<close>

definition status_elem :: "string \<Rightarrow> xml" where
  "status_elem code = Element (ns ''status'') [(''statusCode'', code)] None []"

definition registry_answer :: "string \<Rightarrow> xml list \<Rightarrow> xml" where
  "registry_answer code recs =
     Element ''{http://schemas.xmlsoap.org/soap/envelope/}Envelope'' [] None
       [Element ''{http://schemas.xmlsoap.org/soap/envelope/}Body'' [] None
          [Element (ns ''StatusNespolehlivyPlatceResponse'') [] None
             (status_elem code # recs)]]"

definition platce_record :: "string \<Rightarrow> string \<Rightarrow> xml" where
  "platce_record dic flag =
     Element (ns ''statusPlatceDPH'') [(''dic'', dic), (''nespolehlivyPlatce'', flag)] None []"

definition w0 :: world where
  "w0 = \<lparr>fs = (\<lambda>_. None), stdout = [], sent = []\<rparr>"

text \<open>
  An environment for the examples: \<open>sample_loads\<close> is \<open>json.loads\<close> on the texts the
  examples hand it (two objects, an array, and texts that are not JSON); the registry
  cannot be reached, the backend answers \<open>{}\<close>, and no file operation fails.
\<close>

definition sample_loads :: "string \<Rightarrow> exn + json" where
  \<open>sample_loads s =
     (if s = ''{}'' then Inr (JObject [])
      else if s = ''[]'' then Inr (JArray [])
      else if s = ''{"vat_number": "CZ12345678"}''
        then Inr (JObject [(''vat_number'', JString ''CZ12345678'')])
      else Inl JSONDecodeError)\<close>

definition env0 :: env where
  "env0 = \<lparr>requests_post = (\<lambda>_. Inl ConnectionError),
           json_loads = sample_loads,
           json_dumps = (\<lambda>_. []),
           b64encode = (\<lambda>b. b),
           vision_api = (\<lambda>_ _. Inr ''{}''),
           fitz_render = (\<lambda>_ _. Inr ''png''),
           pil_enhance = (\<lambda>b. Inr b),
           fault = (\<lambda>_ _. None),
           glob = (\<lambda>_. [])\<rparr>"


definition env_answer :: "string \<Rightarrow> env" where
  \<comment> \<open>the backend answers with this text\<close>
  "env_answer raw = env0\<lparr>vision_api := (\<lambda>_ _. Inr raw)\<rparr>"

definition env_fault :: "io_op \<Rightarrow> string \<Rightarrow> env" where
  \<comment> \<open>one file operation on one path fails\<close>
  "env_fault op p =
     env0\<lparr>fault := (\<lambda>op' p'. if op' = op \<and> p' = p then Some OSError else None)\<rparr>"

definition env_corrupt :: "string \<Rightarrow> env" where
  \<comment> \<open>a folder of three PDFs, of which the given one cannot be opened\<close>
  "env_corrupt p =
     env0\<lparr>fitz_render := (\<lambda>p' k. if p' = p then Inl FileDataError else Inr ''png''),
          glob := (\<lambda>pat. if pat = ''*.pdf'' then [''a.pdf'', ''b.pdf'', ''c.pdf''] else [])\<rparr>"

section \<open>The registry's answer: properties\<close>

lemma scan_records_groq_find:
  "scan_records_groq recs v w =
     (case List.find (\<lambda>r. get r ''dic'' '''' = v) recs of
        None \<Rightarrow> (Inr None, w)
      | Some r \<Rightarrow>
          (let flag = get r ''nespolehlivyPlatce'' '''' in
           if flag = ''NENALEZEN'' then (Inr (Some False), say (Not_found_in_registry v) w)
           else if flag = ''ANO'' then (Inr (Some False), say (Payer_is_unreliable v) w)
           else if flag = ''NE'' \<or> flag = '''' then (Inr (Some True), say (Payer_is_reliable v) w)
           else (Inr (Some True), say (Unknown_VAT_status flag v) w)))"
  by (induction recs) (simp_all add: ret_def bind_def print_def say_def Let_def)

lemma find_status:
  "find_elem (registry_answer code recs) ''status'' = Some (status_elem code)"
  by (simp add: find_elem_def findall_def descendants_def registry_answer_def
      status_elem_def ns_def)

lemma get_statusCode: "get (status_elem code) ''statusCode'' '''' = code"
  by (simp add: get_def status_elem_def)

lemma findall_statusPlatceDPH_one:
  "findall (registry_answer code [platce_record d f]) ''statusPlatceDPH'' = [platce_record d f]"
  by (simp add: findall_def descendants_def registry_answer_def status_elem_def
      platce_record_def ns_def)

lemma findall_statusPlatceDPH_none:
  "findall (registry_answer code []) ''statusPlatceDPH'' = []"
  by (simp add: findall_def descendants_def registry_answer_def status_elem_def ns_def)

lemma findall_StatusNespolehlivyPlatce_sample:
  "findall (registry_answer code []) ''StatusNespolehlivyPlatce'' = []"
  "findall (registry_answer code [platce_record d f]) ''StatusNespolehlivyPlatce'' = []"
  by (simp_all add: findall_def descendants_def registry_answer_def status_elem_def
      platce_record_def ns_def)

lemma get_platce_record:
  "get (platce_record d f) ''dic'' '''' = d"
  "get (platce_record d f) ''nespolehlivyPlatce'' '''' = f"
  by (simp_all add: get_def platce_record_def)

lemma parse_vat_response_sample:
  "parse_vat_response (Inr (registry_answer ''0'' [])) v w = (Inr (Some True), w)"
  "parse_vat_response (Inr (registry_answer ''0'' [platce_record d f])) v w =
     (Inr (Some True), w)"
  by (simp_all add: parse_vat_response_def parse_vat_body_def try_except_def bind_def ret_def
      find_status get_statusCode findall_StatusNespolehlivyPlatce_sample)

text \<open>
  C1 (as amended). In \<open>invoice_extractor_groq.py\<close>, for every answer whose status code
  is the success code \<open>0\<close> and every numeric body: with no \<open>statusPlatceDPH\<close> record
  at all the function returns \<open>False\<close> and prints that the number was not found in the
  registry; with records of which none has the \<open>dic\<close> attribute equal to the body it
  returns \<open>False\<close> and prints that the number was not found in the returned records;
  otherwise the first record with that \<open>dic\<close> decides by its \<open>nespolehlivyPlatce\<close>
  attribute: \<open>ANO\<close> returns \<open>False\<close> (printed as unreliable), \<open>NE\<close> or empty returns
  \<open>True\<close>, \<open>NENALEZEN\<close> returns \<open>False\<close> (printed as not found), anything else
  returns \<open>True\<close> (printed as unknown). Not found and unreliable are the same returned
  value and differ in the printed line only.
\<close>

theorem parse_vat_response_groq_classifies:
  assumes "find_elem root ''status'' = Some st" and "get st ''statusCode'' '''' = ''0''"
  shows "parse_vat_response_groq (Inr root) v w =
     (let recs = findall root ''statusPlatceDPH'' in
      if recs = [] then (Inr (Some False), say (Not_found_in_registry v) w)
      else case List.find (\<lambda>r. get r ''dic'' '''' = v) recs of
         None \<Rightarrow> (Inr (Some False), say (Not_found_in_returned_records v) w)
       | Some r \<Rightarrow>
           (let flag = get r ''nespolehlivyPlatce'' '''' in
            if flag = ''ANO'' then (Inr (Some False), say (Payer_is_unreliable v) w)
            else if flag = ''NE'' \<or> flag = '''' then
              (Inr (Some True), say (Payer_is_reliable v) w)
            else if flag = ''NENALEZEN'' then
              (Inr (Some False), say (Not_found_in_registry v) w)
            else (Inr (Some True), say (Unknown_VAT_status flag v) w)))"
  using assms
  by (simp add: parse_vat_response_groq_def parse_vat_body_groq_def try_except_def bind_def
      print_def ret_def say_def Let_def scan_records_groq_find split: option.splits)

theorem parse_vat_response_groq_classifies_witness:
  "find_elem (registry_answer ''0'' [platce_record ''12345678'' ''ANO'']) ''status''
     = Some (status_elem ''0'')
   \<and> get (status_elem ''0'') ''statusCode'' '''' = ''0''
   \<and> parse_vat_response_groq
         (Inr (registry_answer ''0'' [platce_record ''12345678'' ''ANO''])) ''12345678'' w0
       = (Inr (Some False), say (Payer_is_unreliable ''12345678'') w0)"
  using parse_vat_response_groq_classifies
    [OF find_status get_statusCode, of "[platce_record ''12345678'' ''ANO'']" "''12345678''" w0]
  by (simp add: find_status get_statusCode findall_statusPlatceDPH_one get_platce_record)

text \<open>
  The claim C1 as written fails: on an answer with the success code and no record the
  function of \<open>invoice_extractor.py\<close> returns \<open>True\<close> (reliable), and the function of
  \<open>invoice_extractor_groq.py\<close> returns for it the very value it returns for a record
  flagged \<open>ANO\<close>.
\<close>

theorem parse_vat_response_not_found_counterexample:
  "fst (parse_vat_response (Inr (registry_answer ''0'' [])) ''12345678'' w0) = Inr (Some True)
   \<and> fst (parse_vat_response_groq (Inr (registry_answer ''0'' [])) ''12345678'' w0)
       = Inr (Some False)
   \<and> fst (parse_vat_response_groq
         (Inr (registry_answer ''0'' [platce_record ''12345678'' ''ANO''])) ''12345678'' w0)
       = Inr (Some False)"
proof -
  have "parse_vat_response_groq
          (Inr (registry_answer ''0'' [platce_record ''12345678'' ''ANO''])) ''12345678'' w0
        = (Inr (Some False), say (Payer_is_unreliable ''12345678'') w0)"
    by (simp add: parse_vat_response_groq_def parse_vat_body_groq_def try_except_def bind_def
        print_def ret_def say_def find_status get_statusCode findall_statusPlatceDPH_one
        get_platce_record)
  moreover have "parse_vat_response_groq (Inr (registry_answer ''0'' [])) ''12345678'' w0
        = (Inr (Some False), say (Not_found_in_registry ''12345678'') w0)"
    by (simp add: parse_vat_response_groq_def parse_vat_body_groq_def try_except_def bind_def
        print_def ret_def say_def find_status get_statusCode findall_statusPlatceDPH_none)
  ultimately show ?thesis
    by (simp add: parse_vat_response_sample)
qed

text \<open>
  C5. The two readings of the registry's answer are not the same function: on an answer
  with the success code and one \<open>statusPlatceDPH\<close> record flagged \<open>ANO\<close> for the
  number asked, \<open>invoice_extractor.py\<close> (child elements of \<open>StatusNespolehlivyPlatce\<close>)
  returns \<open>True\<close> and \<open>invoice_extractor_groq.py\<close> (attributes of \<open>statusPlatceDPH\<close>)
  returns \<open>False\<close>.
\<close>

theorem parse_vat_response_variants_differ:
  "fst (parse_vat_response
          (Inr (registry_answer ''0'' [platce_record ''12345678'' ''ANO''])) ''12345678'' w0)
     = Inr (Some True)
   \<and> fst (parse_vat_response_groq
          (Inr (registry_answer ''0'' [platce_record ''12345678'' ''ANO''])) ''12345678'' w0)
     = Inr (Some False)
   \<and> parse_vat_response \<noteq> parse_vat_response_groq"
proof -
  let ?doc = "Inr (registry_answer ''0'' [platce_record ''12345678'' ''ANO''])"
  have a: "fst (parse_vat_response ?doc ''12345678'' w0) = Inr (Some True)"
    by (simp add: parse_vat_response_sample)
  have b: "fst (parse_vat_response_groq ?doc ''12345678'' w0) = Inr (Some False)"
    by (simp add: parse_vat_response_groq_def parse_vat_body_groq_def try_except_def bind_def
        print_def ret_def find_status get_statusCode findall_statusPlatceDPH_one
        get_platce_record)
  from a b have "parse_vat_response \<noteq> parse_vat_response_groq"
    by auto
  with a b show ?thesis by simp
qed

section \<open>The reliability check: properties\<close>


lemma try_except_returns:
  assumes "\<And>e w. \<exists>r w'. h e w = (Inr r, w')"
  shows "\<exists>r w'. try_except m h w = (Inr r, w')"
proof (cases "m w")
  case (Pair a w1)
  then show ?thesis using assms[of _ w1]
    by (cases a) (auto simp: try_except_def)
qed


lemma parse_vat_response_of_unparsed:
  "fst (parse_vat_response_of var (Inl e) v w) = Inr None"
  by (cases var) (simp_all add: parse_vat_response_of_def parse_vat_response_def
      parse_vat_response_groq_def parse_vat_body_def parse_vat_body_groq_def
      try_except_def raise_def xml_handler_def bind_def print_def ret_def)

lemma check_vat_reliability_returns:
  "\<exists>r w'. check_vat_reliability var env v w = (Inr r, w')"
proof -
  have h: "\<And>e w. \<exists>r w'.
      bind (print (Error_checking_VAT e)) (\<lambda>_. ret (None :: bool option)) w = (Inr r, w')"
    by (simp add: bind_def print_def ret_def)
  show ?thesis
    unfolding check_vat_reliability_def Let_def
    by (cases v) (simp_all add: ret_def try_except_returns[OF h])
qed



text \<open>
  A body of digits that are not ASCII is eligible, as it is for \<open>str.isdigit\<close>: with the
  superscript two as its last digit the identifier is sent to the registry.
\<close>

lemma check_vat_reliability_superscript_digit:
  "isdigit (''1234567'' @ [CHR 0xB2])
   \<and> sent (snd (check_vat_reliability Groq env0 (JString (''CZ1234567'' @ [CHR 0xB2])) w0))
       = [soap_request (''1234567'' @ [CHR 0xB2])]"
  by (simp add: check_vat_reliability_def truthy_def isinstance_str_def isdigit_def upper_def
      remove_spaces_def upper_char_def small_letters_def capital_letters_def startswith_def
      Let_def try_except_def bind_def post_def print_def ret_def env0_def w0_def)

text \<open>
  C10. \<open>check_vat_reliability\<close> returns for every input: its result is never an
  exception. On the empty string and on a value that is not a string it returns \<open>None\<close>
  and leaves the world as it was (no request). When the request for a string raises, or
  is answered by a text that \<open>ET.fromstring\<close> rejects, it returns \<open>None\<close>.
\<close>

theorem check_vat_reliability_never_raises:
  "(\<exists>r. fst (check_vat_reliability var env v w) = Inr r)
   \<and> ((v = JString [] \<or> \<not> isinstance_str v) \<longrightarrow>
        check_vat_reliability var env v w = (Inr None, w))
   \<and> (\<forall>s. v = JString s \<longrightarrow>
          (case requests_post env (soap_request (drop 2 (upper (remove_spaces s)))) of
             Inl e \<Rightarrow> True
           | Inr resp \<Rightarrow> isl (body resp)) \<longrightarrow>
          fst (check_vat_reliability var env v w) = Inr None)"
proof (intro conjI impI allI)
  show "\<exists>r. fst (check_vat_reliability var env v w) = Inr r"
    using check_vat_reliability_returns[of var env v w] by auto
next
  assume "v = JString [] \<or> \<not> isinstance_str v"
  then show "check_vat_reliability var env v w = (Inr None, w)"
    by (auto simp: check_vat_reliability_def truthy_def ret_def)
next
  fix s
  assume v: "v = JString s"
    and a: "case requests_post env (soap_request (drop 2 (upper (remove_spaces s)))) of
              Inl e \<Rightarrow> True
            | Inr resp \<Rightarrow> isl (body resp)"
  let ?rq = "soap_request (drop 2 (upper (remove_spaces s)))"
  have post: "fst (try_except
                     (bind (post env ?rq) (\<lambda>response.
                        if status_code response = 200 then
                          parse_vat_response_of var (body response) n
                        else
                          bind (print (VAT_service_error_HTTP (status_code response)))
                            (\<lambda>_. ret None)))
                     (\<lambda>e. bind (print (Error_checking_VAT e)) (\<lambda>_. ret None)) w) = Inr None"
    for n
  proof (cases "requests_post env ?rq")
    case (Inl e)
    then show ?thesis
      by (simp add: try_except_def bind_def post_def print_def ret_def)
  next
    case (Inr resp)
    with a obtain e where e: "body resp = Inl e"
      by (cases "body resp") auto
    obtain r w' where
      p: "parse_vat_response_of var (Inl e) n (w\<lparr>sent := sent w @ [?rq]\<rparr>) = (r, w')"
      by (cases "parse_vat_response_of var (Inl e) n (w\<lparr>sent := sent w @ [?rq]\<rparr>)")
    with parse_vat_response_of_unparsed[of var e n "w\<lparr>sent := sent w @ [?rq]\<rparr>"]
    have "r = Inr None" by simp
    with Inr e p show ?thesis
      by (simp add: try_except_def bind_def post_def print_def ret_def)
  qed
  show "fst (check_vat_reliability var env v w) = Inr None"
    unfolding check_vat_reliability_def Let_def v
    by (simp add: ret_def post)
qed

theorem check_vat_reliability_never_raises_witness:
  "\<not> isinstance_str (JInt 12345678)
   \<and> check_vat_reliability Anthropic env0 (JInt 12345678) w0 = (Inr None, w0)
   \<and> check_vat_reliability Anthropic env0 (JString []) w0 = (Inr None, w0)
   \<and> requests_post env0 (soap_request ''12345678'') = Inl ConnectionError
   \<and> fst (check_vat_reliability Anthropic env0 (JString ''CZ12345678'') w0) = Inr None"
  using check_vat_reliability_never_raises[of Anthropic env0 "JInt 12345678" w0]
    check_vat_reliability_never_raises[of Anthropic env0 "JString []" w0]
    check_vat_reliability_never_raises[of Anthropic env0 "JString ''CZ12345678''" w0]
  by (simp add: isinstance_str_def env0_def)

section \<open>Reading the backend's answer: properties\<close>














lemma keys_dict_set: "fst ` set (dict_set d k v) = insert k (fst ` set d)"
  by (induction d k v rule: dict_set.induct) auto

lemma attach_reliability_object:
 "attach_reliability var env (JObject d) w =
   (case map_of d ''vat_number'' of
      None \<Rightarrow> (Inr (JObject (dict_set d ''reliable_VAT_payer'' (JString ''No VAT number found''))),
               say No_VAT_number_found_for_check w)
    | Some v \<Rightarrow>
        if truthy v then
          (case check_vat_reliability var env v (say (Checking_VAT_reliability_for v) w) of
             (Inl e, w') \<Rightarrow> (Inl e, w')
           | (Inr None, w') \<Rightarrow>
               (Inr (JObject (dict_set d ''reliable_VAT_payer'' (JString ''Unable to verify''))),
                say VAT_could_not_be_determined w')
           | (Inr (Some b), w') \<Rightarrow>
               (Inr (JObject (dict_set d ''reliable_VAT_payer'' (JBool b))),
                say (VAT_check_result (if b then ''Reliable'' else ''Unreliable'')) w'))
        else (Inr (JObject (dict_set d ''reliable_VAT_payer'' (JString ''No VAT number found''))),
              say No_VAT_number_found_for_check w))"
  by (simp add: attach_reliability_def py_contains_def py_getitem_def py_setitem_def
      bind_def ret_def print_def say_def split: option.splits sum.splits prod.splits)


lemma extract_record_cases:
  assumes "vision_api env m enc = Inr raw"
  shows "extract_record var env m enc w =
    (case json_loads env (clean_response raw) of
       Inl e \<Rightarrow>
         if e = JSONDecodeError
         then (Inr None, say (Response_text (clean_response raw)) (say (Error_parsing_JSON e) w))
         else (Inr None, say (Error_processing_invoice e) w)
     | Inr j \<Rightarrow>
         (case attach_reliability var env j w of
            (Inl e, w') \<Rightarrow>
              if e = JSONDecodeError
              then (Inr None, say (Response_text (clean_response raw)) (say (Error_parsing_JSON e) w'))
              else (Inr None, say (Error_processing_invoice e) w')
          | (Inr d, w') \<Rightarrow> (Inr (Some d), w')))"
  using assms
  by (simp add: extract_record_def read_response_def try_except_def
      try_except_JSONDecodeError_def bind_def lift_def ret_def print_def say_def Let_def
      split: sum.splits prod.splits)

lemma attach_reliability_object_returns:
  "\<exists>d' w'. attach_reliability var env (JObject d) w = (Inr (JObject d'), w')
     \<and> set (map fst d') = insert ''reliable_VAT_payer'' (set (map fst d))"
proof (cases "map_of d ''vat_number''")
  case None
  then show ?thesis by (simp add: attach_reliability_object keys_dict_set)
next
  case (Some v)
  obtain r w1 where
    c: "check_vat_reliability var env v (say (Checking_VAT_reliability_for v) w) = (Inr r, w1)"
    using check_vat_reliability_returns by blast
  with Some show ?thesis
    by (cases r) (simp_all add: attach_reliability_object keys_dict_set)
qed





















text \<open>
  C3 (as amended). The record that reaches persistence has exactly the keys of the
  object the backend sent together with \<open>reliable_VAT_payer\<close>, and \<open>save_results\<close>
  writes that record under \<open><stem>_extracted.json\<close>: the keys are not checked against
  the twelve of the schema.
\<close>

theorem persisted_keys:
  assumes "vision_api env m enc = Inr raw"
    and "json_loads env (clean_response raw) = Inr (JObject d)"
  shows "\<exists>d' w'. extract_record var env m enc w = (Inr (Some (JObject d')), w')
     \<and> set (map fst d') = insert ''reliable_VAT_payer'' (set (map fst d))
     \<and> (fault env Open_write (stem n @ ''_extracted.json'') = None
          \<and> fault env Write (stem n @ ''_extracted.json'') = None \<longrightarrow>
        fs (snd (save_results env (JObject d') n w')) (stem n @ ''_extracted.json'')
          = Some (Dumped (JObject d')))"
proof -
  obtain d' w' where a: "attach_reliability var env (JObject d) w = (Inr (JObject d'), w')"
     and k: "set (map fst d') = insert ''reliable_VAT_payer'' (set (map fst d))"
    using attach_reliability_object_returns by blast
  have "extract_record var env m enc w = (Inr (Some (JObject d')), w')"
    using a assms(2) by (simp add: extract_record_cases[OF assms(1)])
  moreover have "fault env Open_write (stem n @ ''_extracted.json'') = None
          \<and> fault env Write (stem n @ ''_extracted.json'') = None \<longrightarrow>
        fs (snd (save_results env (JObject d') n w')) (stem n @ ''_extracted.json'')
          = Some (Dumped (JObject d'))"
    by (simp add: save_results_def write_file_def bind_def print_def Let_def)
  ultimately show ?thesis using k by blast
qed

theorem persisted_keys_witness:
  "vision_api (env_answer ''{}'') ''image/png'' ''png'' = Inr ''{}''
   \<and> json_loads (env_answer ''{}'') (clean_response ''{}'') = Inr (JObject [])
   \<and> (\<exists>d' w'. extract_record Groq (env_answer ''{}'') ''image/png'' ''png'' w0
                 = (Inr (Some (JObject d')), w')
         \<and> set (map fst d') = {''reliable_VAT_payer''}
         \<and> fs (snd (save_results (env_answer ''{}'') (JObject d') ''a.pdf'' w'))
              (stem ''a.pdf'' @ ''_extracted.json'') = Some (Dumped (JObject d')))"
proof -
  have c: "clean_response ''{}'' = ''{}''"
    by (simp add: clean_response_def strip_def lstrip_def rstrip_def isspace_def
        startswith_def endswith_def)
  have v: "vision_api (env_answer ''{}'') ''image/png'' ''png'' = Inr ''{}''"
    by (simp add: env_answer_def env0_def)
  have l: "json_loads (env_answer ''{}'') (clean_response ''{}'') = Inr (JObject [])"
    by (simp add: c env_answer_def env0_def sample_loads_def)
  have f: "fault (env_answer ''{}'') op p = None" for op p
    by (simp add: env_answer_def env0_def)
  show ?thesis
    using persisted_keys[OF v l, of Groq w0 "''a.pdf''"] v l f
    by simp
qed

text \<open>
  The claim C3 as written fails: when the backend answers \<open>{}\<close> for \<open>a.pdf\<close>, the
  file \<open>a_extracted.json\<close> holds an object with the single key \<open>reliable_VAT_payer\<close>.
\<close>

theorem persisted_keys_counterexample:
  "fs (snd (process_files Groq env0 [''a.pdf''] w0)) ''a_extracted.json''
     = Some (Dumped (JObject [(''reliable_VAT_payer'', JString ''No VAT number found'')]))
   \<and> set (map fst [(''reliable_VAT_payer'', JString ''No VAT number found'')])
       \<noteq> set invoice_keys"
proof -
  have c: "clean_response ''{}'' = ''{}''"
    by (simp add: clean_response_def strip_def lstrip_def rstrip_def isspace_def
        startswith_def endswith_def)
  have s: "lower (suffix ''a.pdf'') = ''.pdf''" "stem ''a.pdf'' = ''a''" "name ''a.pdf'' = ''a.pdf''"
    by (simp_all add: lower_def lower_char_def small_letters_def capital_letters_def suffix_def stem_def name_def rfind_dot_def)
  have n: "normalise Groq env0 ''a.pdf'' w
      = (Inr (''png'', ''image/png''),
         w\<lparr>fs := (fs w)(''temp_invoice_enhanced.png'' := None)\<rparr>)" for w
    by (simp add: normalise_def s pdf_to_image_def bind_def lift_def env0_def pil_save_def
        write_file_def encode_image_def read_file_def bytes_of_def os_remove_def ret_def)
  have e: "extract_record Groq env0 ''image/png'' ''png'' w
      = (Inr (Some (JObject [(''reliable_VAT_payer'', JString ''No VAT number found'')])),
         say No_VAT_number_found_for_check w)" for w
    using extract_record_cases[of env0 "''image/png''" "''png''" "''{}''" Groq w]
    by (simp add: c env0_def sample_loads_def attach_reliability_object)
  have f: "fault env0 op q = None" for op q
    by (simp add: env0_def)
  have p: "process_invoice Groq env0 ''a.pdf'' w0
      = (Inr (Some (JObject [(''reliable_VAT_payer'', JString ''No VAT number found'')])),
         say No_VAT_number_found_for_check (say (Processing ''a.pdf'') w0))"
    by (simp add: process_invoice_def bind_def print_def n e say_def w0_def)
  have "fs (snd (process_files Groq env0 [''a.pdf''] w0)) ''a_extracted.json''
     = Some (Dumped (JObject [(''reliable_VAT_payer'', JString ''No VAT number found'')]))"
    by (simp add: bind_def p s truthy_def save_results_def write_file_def print_def ret_def
        say_def f Let_def)
  then show ?thesis
    by (simp add: invoice_keys_def)
qed




section \<open>Normalising a document: properties\<close>

text \<open>
  C9 (as amended). When \<open>pdf_to_image\<close> returns, its temporary file is gone. When the
  rendering of the PDF fails, the world is left as it was. On the exceptional exits
  after that nothing is released: whenever the function raises having changed the file
  system, the temporary file is still there.
\<close>

theorem pdf_to_image_temp_file:
  "(pdf_to_image var env pdf_path w = (Inr encoded, w') \<longrightarrow> fs w' (temp_image_path var) = None)
   \<and> (isl (fitz_render env pdf_path (case var of Anthropic \<Rightarrow> 2 | Groq \<Rightarrow> 3)) \<longrightarrow>
        snd (pdf_to_image var env pdf_path w) = w)
   \<and> (pdf_to_image var env pdf_path w = (Inl e, w') \<and> fs w' \<noteq> fs w \<longrightarrow>
        fs w' (temp_image_path var) \<noteq> None)"
  by (cases var)
     (auto simp add: pdf_to_image_def temp_image_path_def bind_def lift_def ret_def
        write_file_def pil_save_def encode_image_def read_file_def os_remove_def
        split: sum.splits option.splits if_splits)

theorem pdf_to_image_temp_file_witness:
  "pdf_to_image Anthropic env0 ''a.pdf'' w0 = (Inr ''png'', w0)
   \<and> fs w0 (temp_image_path Anthropic) = None
   \<and> isl (fitz_render (env_corrupt ''b.pdf'') ''b.pdf'' 3)
   \<and> snd (pdf_to_image Groq (env_corrupt ''b.pdf'') ''b.pdf'' w0) = w0"
proof -
  have a: "pdf_to_image Anthropic env0 ''a.pdf'' w0 = (Inr ''png'', w0)"
    by (simp add: pdf_to_image_def bind_def lift_def ret_def write_file_def encode_image_def
        read_file_def os_remove_def env0_def w0_def bytes_of_def)
  have b: "isl (fitz_render (env_corrupt ''b.pdf'') ''b.pdf'' 3)"
    by (simp add: env_corrupt_def env0_def)
  show ?thesis
    using pdf_to_image_temp_file[of Anthropic env0 "''a.pdf''" w0 "''png''" w0]
      pdf_to_image_temp_file[of Groq "env_corrupt ''b.pdf''" "''b.pdf''" w0]
      a b
    by simp
qed

text \<open>
  The claim C9 as written fails: when writing the temporary file fails after \<open>open\<close>
  has created it, or when reading it back fails, \<open>pdf_to_image\<close> raises and the
  temporary file stays.
\<close>

theorem pdf_to_image_temp_file_counterexample:
  "pdf_to_image Anthropic (env_fault Write ''temp_invoice.png'') ''a.pdf'' w0
     = (Inl OSError, w0\<lparr>fs := (fs w0)(''temp_invoice.png'' \<mapsto> Bytes [])\<rparr>)
   \<and> pdf_to_image Groq (env_fault Read ''temp_invoice_enhanced.png'') ''a.pdf'' w0
     = (Inl OSError, w0\<lparr>fs := (fs w0)(''temp_invoice_enhanced.png'' \<mapsto> Bytes ''png'')\<rparr>)"
  by (simp add: pdf_to_image_def bind_def lift_def ret_def write_file_def pil_save_def
      encode_image_def read_file_def os_remove_def env0_def env_fault_def w0_def bytes_of_def)

section \<open>All invoices: properties\<close>

lemma process_files_aborts:
  "process_invoice var env file_path w = (Inl e, w') \<Longrightarrow>
   process_files var env (file_path # rest) w = (Inl e, w')"
  by (simp add: bind_def)

lemma process_files_continues:
  "process_invoice var env file_path w = (Inr None, w') \<Longrightarrow>
   process_files var env (file_path # rest) w =
     process_files var env rest (say Separator (say (Failed_to_process (name file_path)) w'))"
  by (simp add: bind_def print_def say_def)

lemma process_invoice_normalise_raises:
  "normalise var env file_path (say (Processing file_path) w) = (Inl e, w') \<Longrightarrow>
   process_invoice var env file_path w = (Inl e, w')"
  by (simp add: process_invoice_def bind_def print_def say_def)

text \<open>
  C8. The claim is not what the code does: normalisation runs before the \<open>try\<close> of
  \<open>process_invoice\<close>, so a document that cannot be rendered raises out of the loop. In
  a folder of three PDFs whose second cannot be opened, \<open>process_all_invoices\<close> ends
  with the exception: the first file is persisted, no failure is printed for the second,
  and the third is never processed.
\<close>

theorem process_all_invoices_aborts_on_corrupt_pdf:
  "process_all_invoices Anthropic (env_corrupt ''b.pdf'') w0
     = (Inl FileDataError,
        w0\<lparr>fs := (fs w0)(''a_extracted.json'' \<mapsto>
                 Dumped (JObject [(''reliable_VAT_payer'', JString ''No VAT number found'')])),
            stdout := [Found_files 3, File_item ''a.pdf'', File_item ''b.pdf'', File_item ''c.pdf'',
                       Processing ''a.pdf'', No_VAT_number_found_for_check,
                       Results_saved_to ''a_extracted.json'', Successfully_processed ''a.pdf'',
                       Separator, Processing ''b.pdf'']\<rparr>)"
proof -
  let ?env = "env_corrupt ''b.pdf''"
  have s: "lower (suffix ''a.pdf'') = ''.pdf''" "stem ''a.pdf'' = ''a''" "name ''a.pdf'' = ''a.pdf''"
     "lower (suffix ''b.pdf'') = ''.pdf''"
    by (simp_all add: lower_def lower_char_def small_letters_def capital_letters_def suffix_def stem_def name_def rfind_dot_def)
  have f: "fault ?env op q = None" for op q
    by (simp add: env_corrupt_def env0_def)
  have g: "get_supported_files ?env = [''a.pdf'', ''b.pdf'', ''c.pdf'']"
    by (simp add: get_supported_files_def env_corrupt_def env0_def upper_def upper_char_def small_letters_def
        capital_letters_def)
  have c: "clean_response ''{}'' = ''{}''"
    by (simp add: clean_response_def strip_def lstrip_def rstrip_def isspace_def
        startswith_def endswith_def)
  have e: "extract_record Anthropic ?env ''image/png'' ''png'' w
      = (Inr (Some (JObject [(''reliable_VAT_payer'', JString ''No VAT number found'')])),
         say No_VAT_number_found_for_check w)" for w
    using extract_record_cases[of ?env "''image/png''" "''png''" "''{}''" Anthropic w]
    by (simp add: c env_corrupt_def env0_def sample_loads_def attach_reliability_object)
  have na: "normalise Anthropic ?env ''a.pdf'' w
      = (Inr (''png'', ''image/png''), w\<lparr>fs := (fs w)(''temp_invoice.png'' := None)\<rparr>)" for w
    by (simp add: normalise_def s pdf_to_image_def bind_def lift_def env_corrupt_def env0_def
        write_file_def encode_image_def read_file_def bytes_of_def os_remove_def ret_def Let_def)
  have nb: "normalise Anthropic ?env ''b.pdf'' w = (Inl FileDataError, w)" for w
    by (simp add: normalise_def s pdf_to_image_def bind_def lift_def env_corrupt_def env0_def
        Let_def)
  have pa: "process_invoice Anthropic ?env ''a.pdf'' w
      = (Inr (Some (JObject [(''reliable_VAT_payer'', JString ''No VAT number found'')])),
         w\<lparr>fs := (fs w)(''temp_invoice.png'' := None),
           stdout := stdout w @ [Processing ''a.pdf'', No_VAT_number_found_for_check]\<rparr>)" for w
    by (simp add: process_invoice_def bind_def print_def na e say_def)
  have pb: "process_invoice Anthropic ?env ''b.pdf'' w
      = (Inl FileDataError, say (Processing ''b.pdf'') w)" for w
    by (simp add: process_invoice_def bind_def print_def nb say_def)
  show ?thesis
    by (simp add: process_all_invoices_def g bind_def pa pb s truthy_def save_results_def
        write_file_def print_def ret_def say_def f Let_def w0_def)
qed

end
